theory Spec2Isabelle
  imports Main "HOL-Library.Word"
begin

section \<open>gRPC error normalisation (util/grpc/errors.go)\<close>

text \<open>
  The file under verification rewrites the error a gRPC handler returns into an error
  that carries a gRPC status code. It observes an error value through exactly three
  operations: the \<open>Error()\<close> text, the optional \<open>GRPCStatus()\<close> method (an
  interface assertion) and \<open>errors.Unwrap\<close>. The Kubernetes predicates
  (\<open>apierrors.IsNotFound\<close> and its siblings) belong to a dependency and are a parameter
  of the control-plane classifier.
\<close>

subsection \<open>Status codes and statuses of the gRPC library\<close>

text \<open>\<open>codes.Code\<close> is a \<open>uint32\<close>; the library names the values 0 to 16.\<close>

type_synonym code = "32 word"

definition codes_OK :: code where "codes_OK = 0"
definition codes_Canceled :: code where "codes_Canceled = 1"
definition codes_Unknown :: code where "codes_Unknown = 2"
definition codes_InvalidArgument :: code where "codes_InvalidArgument = 3"
definition codes_DeadlineExceeded :: code where "codes_DeadlineExceeded = 4"
definition codes_NotFound :: code where "codes_NotFound = 5"
definition codes_AlreadyExists :: code where "codes_AlreadyExists = 6"
definition codes_PermissionDenied :: code where "codes_PermissionDenied = 7"
definition codes_ResourceExhausted :: code where "codes_ResourceExhausted = 8"
definition codes_FailedPrecondition :: code where "codes_FailedPrecondition = 9"
definition codes_Aborted :: code where "codes_Aborted = 10"
definition codes_OutOfRange :: code where "codes_OutOfRange = 11"
definition codes_Unimplemented :: code where "codes_Unimplemented = 12"
definition codes_Internal :: code where "codes_Internal = 13"
definition codes_Unavailable :: code where "codes_Unavailable = 14"
definition codes_DataLoss :: code where "codes_DataLoss = 15"
definition codes_Unauthenticated :: code where "codes_Unauthenticated = 16"

lemmas codes_defs =
  codes_OK_def codes_Canceled_def codes_Unknown_def codes_InvalidArgument_def
  codes_DeadlineExceeded_def codes_NotFound_def codes_AlreadyExists_def
  codes_PermissionDenied_def codes_ResourceExhausted_def codes_FailedPrecondition_def
  codes_Aborted_def codes_OutOfRange_def codes_Unimplemented_def codes_Internal_def
  codes_Unavailable_def codes_DataLoss_def codes_Unauthenticated_def

text \<open>\<open>strconv.FormatInt(n, 10)\<close> for a value that is not negative.\<close>

fun FormatInt :: "nat \<Rightarrow> string" where
  "FormatInt n =
     (if n < 10 then [char_of (48 + n)]
      else FormatInt (n div 10) @ [char_of (48 + n mod 10)])"

declare FormatInt.simps [simp del]

text \<open>\<open>(codes.Code).String()\<close>.\<close>

definition code_String :: "code \<Rightarrow> string" where
  "code_String c =
     (if c = codes_OK then ''OK''
      else if c = codes_Canceled then ''Canceled''
      else if c = codes_Unknown then ''Unknown''
      else if c = codes_InvalidArgument then ''InvalidArgument''
      else if c = codes_DeadlineExceeded then ''DeadlineExceeded''
      else if c = codes_NotFound then ''NotFound''
      else if c = codes_AlreadyExists then ''AlreadyExists''
      else if c = codes_PermissionDenied then ''PermissionDenied''
      else if c = codes_ResourceExhausted then ''ResourceExhausted''
      else if c = codes_FailedPrecondition then ''FailedPrecondition''
      else if c = codes_Aborted then ''Aborted''
      else if c = codes_OutOfRange then ''OutOfRange''
      else if c = codes_Unimplemented then ''Unimplemented''
      else if c = codes_Internal then ''Internal''
      else if c = codes_Unavailable then ''Unavailable''
      else if c = codes_DataLoss then ''DataLoss''
      else if c = codes_Unauthenticated then ''Unauthenticated''
      else ''Code('' @ FormatInt (unat c) @ '')'')"

text \<open>
  A \<open>*status.Status\<close> that is not nil: a code, a message and the attached details
  (opaque here). A nil \<open>*status.Status\<close> is \<open>None\<close> of \<open>status option\<close>.
\<close>

record status =
  Code :: code
  Message :: string
  Details :: "string list"

definition status_New :: "code \<Rightarrow> string \<Rightarrow> status" where
  "status_New c msg = \<lparr>Code = c, Message = msg, Details = []\<rparr>"

text \<open>\<open>(*Status).String()\<close>, the text of the library's own error type.\<close>

definition Status_String :: "status \<Rightarrow> string" where
  "Status_String s = ''rpc error: code = '' @ code_String (Code s) @ '' desc = '' @ Message s"

subsection \<open>Error values\<close>

text \<open>
  The status a Kubernetes API error exposes through \<open>Status()\<close>: its reason and its
  HTTP code. Only the library's predicates read it.
\<close>

record apistatus =
  Reason :: string
  HTTPCode :: int

text \<open>
  A Go \<open>error\<close> that is not nil, as far as this package and its dependencies' predicates
  can observe it:
  \<^item> \<open>Error\<close>: the text \<open>err.Error()\<close> returns;
  \<^item> \<open>GRPCStatus\<close>: \<open>None\<close> when the dynamic type has no \<open>GRPCStatus()\<close> method,
    \<open>Some r\<close> when it has one that returns \<open>r\<close> (\<open>r = None\<close> is a nil pointer);
  \<^item> \<open>APIStatus\<close>: the Kubernetes status, when the dynamic type has a \<open>Status()\<close>
    method;
  \<^item> \<open>Unwrap\<close>: what \<open>errors.Unwrap(err)\<close> returns (nil when the type has no
    \<open>Unwrap() error\<close> method or the method returns nil).
  The nil error is \<open>None\<close> of \<open>error option\<close>. Chains are finite.
\<close>

datatype error =
  Err (Error: string) (GRPCStatus: "status option option")
      (APIStatus: "apistatus option") (Unwrap: "error option")

text \<open>\<open>errors.New(msg)\<close>.\<close>

definition errors_New :: "string \<Rightarrow> error" where
  "errors_New msg = Err msg None None None"

text \<open>\<open>fmt.Errorf(prefix + "%w", e)\<close>: a wrapper whose text extends the cause's.\<close>

definition Errorf_w :: "string \<Rightarrow> error \<Rightarrow> error" where
  "Errorf_w prefix e = Err (prefix @ Error e) None None (Some e)"

text \<open>
  The library's \<open>*status.Error\<close> for a status: its text is the status's string, its
  \<open>GRPCStatus()\<close> is the status, and it wraps nothing.
\<close>

definition grpc_error :: "status \<Rightarrow> error" where
  "grpc_error s = Err (Status_String s) (Some (Some s)) None None"

text \<open>\<open>(*Status).Err()\<close>: nil for the code OK.\<close>

definition Status_Err :: "status \<Rightarrow> error option" where
  "Status_Err s = (if Code s = codes_OK then None else Some (grpc_error s))"

text \<open>\<open>status.Error(c, msg)\<close> is \<open>status.New(c, msg).Err()\<close>.\<close>

definition status_Error :: "code \<Rightarrow> string \<Rightarrow> error option" where
  "status_Error c msg = Status_Err (status_New c msg)"

text \<open>The text of go-git's \<open>transport.ErrRepositoryNotFound\<close>.\<close>

definition ErrRepositoryNotFound :: error where
  "ErrRepositoryNotFound = errors_New ''repository not found''"

subsection \<open>The package's functions\<close>

text \<open>Calling a method on a nil interface value panics.\<close>

datatype panic = NilPointerDereference

text \<open>\<open>rewrapError\<close> calls \<open>err.Error()\<close> without a nil check.\<close>

definition rewrapError :: "error option \<Rightarrow> code \<Rightarrow> panic + error option" where
  "rewrapError err c =
     (case err of
        None \<Rightarrow> Inl NilPointerDereference
      | Some e \<Rightarrow> Inr (status_Error c (Error e)))"

text \<open>
  \<open>UnwrapGRPCStatus\<close>: the interface assertion first, then \<open>errors.Unwrap\<close>, then the
  recursive call. On nil the assertion fails and \<open>errors.Unwrap\<close> returns nil.
\<close>

fun UnwrapGRPCStatus :: "error option \<Rightarrow> status option" where
  "UnwrapGRPCStatus None = None"
| "UnwrapGRPCStatus (Some (Err m g a u)) =
     (case g of
        Some se \<Rightarrow> se
      | None \<Rightarrow> (case u of None \<Rightarrow> None | Some e \<Rightarrow> UnwrapGRPCStatus (Some e)))"

text \<open>
  \<open>gitErrToGRPC\<close>: the nil check, the effective message, the comparison with the text
  of \<open>ErrRepositoryNotFound\<close>.
\<close>

definition gitErrToGRPC :: "error option \<Rightarrow> panic + error option" where
  "gitErrToGRPC err =
     (case err of
        None \<Rightarrow> Inr None
      | Some e \<Rightarrow>
          (let errMsg = Error e;
               errMsg = (case UnwrapGRPCStatus err of
                           Some grpcStatus \<Rightarrow> Message grpcStatus
                         | None \<Rightarrow> errMsg)
           in if errMsg = Error ErrRepositoryNotFound
              then rewrapError (Some (errors_New errMsg)) codes_NotFound
              else Inr err))"

text \<open>
  The thirteen predicates of \<open>k8s.io/apimachinery/pkg/api/errors\<close> that
  \<open>kubeErrToGRPC\<close> calls. The package is a dependency, so the classifier takes the
  predicates as a parameter: \<open>apierrors p err\<close> is the result of predicate \<open>p\<close> on
  \<open>err\<close> (which may be nil).
\<close>

datatype k8s_pred =
  IsNotFound | IsAlreadyExists | IsInvalid | IsMethodNotSupported | IsServiceUnavailable
| IsBadRequest | IsUnauthorized | IsForbidden | IsTimeout | IsServerTimeout | IsConflict
| IsTooManyRequests | IsInternalError

type_synonym predicates = "k8s_pred \<Rightarrow> error option \<Rightarrow> bool"

text \<open>\<open>kubeErrToGRPC\<close>: the \<open>switch\<close>, case by case, and its \<open>default\<close>.\<close>

definition kubeErrToGRPC :: "predicates \<Rightarrow> error option \<Rightarrow> panic + error option" where
  "kubeErrToGRPC apierrors err =
     (if apierrors IsNotFound err then rewrapError err codes_NotFound
      else if apierrors IsAlreadyExists err then rewrapError err codes_AlreadyExists
      else if apierrors IsInvalid err then rewrapError err codes_InvalidArgument
      else if apierrors IsMethodNotSupported err then rewrapError err codes_Unimplemented
      else if apierrors IsServiceUnavailable err then rewrapError err codes_Unavailable
      else if apierrors IsBadRequest err then rewrapError err codes_FailedPrecondition
      else if apierrors IsUnauthorized err then rewrapError err codes_Unauthenticated
      else if apierrors IsForbidden err then rewrapError err codes_PermissionDenied
      else if apierrors IsTimeout err then rewrapError err codes_DeadlineExceeded
      else if apierrors IsServerTimeout err then rewrapError err codes_Unavailable
      else if apierrors IsConflict err then rewrapError err codes_Aborted
      else if apierrors IsTooManyRequests err then rewrapError err codes_ResourceExhausted
      else if apierrors IsInternalError err then rewrapError err codes_Internal
      else (case UnwrapGRPCStatus err of
              Some grpcStatus \<Rightarrow> Inr (status_Error (Code grpcStatus) (Message grpcStatus))
            | None \<Rightarrow> Inr err))"

subsection \<open>The interceptors\<close>

text \<open>
  A unary handler returns a response and an error. A stream handler sends its messages
  on the server stream and returns an error: the stream is a state the handler takes
  and returns. The interceptors ignore the call's info argument.
\<close>

type_synonym ('ctx, 'req, 'resp) UnaryHandler = "'ctx \<Rightarrow> 'req \<Rightarrow> 'resp \<times> error option"
type_synonym ('srv, 'ss) StreamHandler = "'srv \<Rightarrow> 'ss \<Rightarrow> 'ss \<times> error option"

definition ErrorCodeGitUnaryServerInterceptor ::
  "'ctx \<Rightarrow> 'req \<Rightarrow> 'info \<Rightarrow> ('ctx, 'req, 'resp) UnaryHandler \<Rightarrow> panic + 'resp \<times> error option" where
  "ErrorCodeGitUnaryServerInterceptor ctx req info handler =
     (case handler ctx req of
        (resp, err) \<Rightarrow>
          (case gitErrToGRPC err of Inl p \<Rightarrow> Inl p | Inr err' \<Rightarrow> Inr (resp, err')))"

definition ErrorCodeGitStreamServerInterceptor ::
  "'srv \<Rightarrow> 'ss \<Rightarrow> 'info \<Rightarrow> ('srv, 'ss) StreamHandler \<Rightarrow> 'ss \<times> (panic + error option)" where
  "ErrorCodeGitStreamServerInterceptor srv ss info handler =
     (case handler srv ss of (ss', err) \<Rightarrow> (ss', gitErrToGRPC err))"

definition ErrorCodeK8sUnaryServerInterceptor ::
  "predicates \<Rightarrow> 'ctx \<Rightarrow> 'req \<Rightarrow> 'info \<Rightarrow> ('ctx, 'req, 'resp) UnaryHandler
     \<Rightarrow> panic + 'resp \<times> error option" where
  "ErrorCodeK8sUnaryServerInterceptor apierrors ctx req info handler =
     (case handler ctx req of
        (resp, err) \<Rightarrow>
          (case kubeErrToGRPC apierrors err of Inl p \<Rightarrow> Inl p | Inr err' \<Rightarrow> Inr (resp, err')))"

definition ErrorCodeK8sStreamServerInterceptor ::
  "predicates \<Rightarrow> 'srv \<Rightarrow> 'ss \<Rightarrow> 'info \<Rightarrow> ('srv, 'ss) StreamHandler
     \<Rightarrow> 'ss \<times> (panic + error option)" where
  "ErrorCodeK8sStreamServerInterceptor apierrors srv ss info handler =
     (case handler srv ss of (ss', err) \<Rightarrow> (ss', kubeErrToGRPC apierrors err))"

subsection \<open>The Kubernetes predicates\<close>

text \<open>
  The predicates as \<open>k8s.io/apimachinery/pkg/api/errors\<close> defines them, to instantiate
  the parameter of \<open>kubeErrToGRPC\<close>. \<open>errors.As\<close> finds the first link of the chain
  that has a \<open>Status()\<close> method; without one the reason is unknown (the empty string)
  and the code is 0.
\<close>

fun errors_As_APIStatus :: "error option \<Rightarrow> apistatus option" where
  "errors_As_APIStatus None = None"
| "errors_As_APIStatus (Some (Err m g a u)) =
     (case a of
        Some s \<Rightarrow> Some s
      | None \<Rightarrow> (case u of None \<Rightarrow> None | Some e \<Rightarrow> errors_As_APIStatus (Some e)))"

definition reasonAndCodeForError :: "error option \<Rightarrow> string \<times> int" where
  "reasonAndCodeForError err =
     (case errors_As_APIStatus err of
        Some s \<Rightarrow> (Reason s, HTTPCode s)
      | None \<Rightarrow> ([], 0))"

definition ReasonForError :: "error option \<Rightarrow> string" where
  "ReasonForError err = fst (reasonAndCodeForError err)"

definition knownReasons :: "string list" where
  "knownReasons =
     [''Unauthorized'', ''Forbidden'', ''NotFound'', ''AlreadyExists'', ''Conflict'',
      ''Gone'', ''Invalid'', ''ServerTimeout'', ''Timeout'', ''TooManyRequests'',
      ''BadRequest'', ''MethodNotAllowed'', ''NotAcceptable'', ''RequestEntityTooLarge'',
      ''UnsupportedMediaType'', ''InternalError'', ''Expired'', ''ServiceUnavailable'']"

text \<open>The common shape: the reason matches, or the reason is not a known one and the
  HTTP code matches.\<close>

definition reason_or_code :: "string \<Rightarrow> int \<Rightarrow> error option \<Rightarrow> bool" where
  "reason_or_code r c err =
     (case reasonAndCodeForError err of
        (reason, code) \<Rightarrow>
          if reason = r then True
          else if \<not> List.member knownReasons reason \<and> code = c then True
          else False)"

fun apimachinery :: predicates where
  "apimachinery IsNotFound err = reason_or_code ''NotFound'' 404 err"
| "apimachinery IsAlreadyExists err = (ReasonForError err = ''AlreadyExists'')"
| "apimachinery IsInvalid err = reason_or_code ''Invalid'' 422 err"
| "apimachinery IsMethodNotSupported err = reason_or_code ''MethodNotAllowed'' 405 err"
| "apimachinery IsServiceUnavailable err = reason_or_code ''ServiceUnavailable'' 503 err"
| "apimachinery IsBadRequest err = reason_or_code ''BadRequest'' 400 err"
| "apimachinery IsUnauthorized err = reason_or_code ''Unauthorized'' 401 err"
| "apimachinery IsForbidden err = reason_or_code ''Forbidden'' 403 err"
| "apimachinery IsTimeout err = reason_or_code ''Timeout'' 504 err"
| "apimachinery IsServerTimeout err = (ReasonForError err = ''ServerTimeout'')"
| "apimachinery IsConflict err = reason_or_code ''Conflict'' 409 err"
| "apimachinery IsTooManyRequests err =
     (case reasonAndCodeForError err of
        (reason, code) \<Rightarrow> if reason = ''TooManyRequests'' then True else code = 429)"
| "apimachinery IsInternalError err = reason_or_code ''InternalError'' 500 err"

subsection \<open>Chains, rule table and call count\<close>

text \<open>The links of an error chain, outermost first, as \<open>errors.Unwrap\<close> walks them.\<close>

fun chain :: "error \<Rightarrow> error list" where
  "chain (Err m g a u) = Err m g a u # (case u of None \<Rightarrow> [] | Some e \<Rightarrow> chain e)"

text \<open>The number of times \<open>UnwrapGRPCStatus\<close> is entered for one outer call.\<close>

fun UnwrapGRPCStatus_calls :: "error option \<Rightarrow> nat" where
  "UnwrapGRPCStatus_calls None = 1"
| "UnwrapGRPCStatus_calls (Some (Err m g a u)) =
     (case g of
        Some se \<Rightarrow> 1
      | None \<Rightarrow> (case u of None \<Rightarrow> 1 | Some e \<Rightarrow> 1 + UnwrapGRPCStatus_calls (Some e)))"

text \<open>
  The priority list of the specification, section 4.3: predicate and code, in order.
\<close>

definition kube_rules :: "(k8s_pred \<times> code) list" where
  "kube_rules =
     [(IsNotFound, codes_NotFound), (IsAlreadyExists, codes_AlreadyExists),
      (IsInvalid, codes_InvalidArgument), (IsMethodNotSupported, codes_Unimplemented),
      (IsServiceUnavailable, codes_Unavailable), (IsBadRequest, codes_FailedPrecondition),
      (IsUnauthorized, codes_Unauthenticated), (IsForbidden, codes_PermissionDenied),
      (IsTimeout, codes_DeadlineExceeded), (IsServerTimeout, codes_Unavailable),
      (IsConflict, codes_Aborted), (IsTooManyRequests, codes_ResourceExhausted),
      (IsInternalError, codes_Internal)]"

text \<open>The first rule of the list whose predicate holds of the error, if any.\<close>

definition first_match :: "predicates \<Rightarrow> error option \<Rightarrow> (k8s_pred \<times> code) option" where
  "first_match apierrors err = find (\<lambda>(p, c). apierrors p err) kube_rules"

text \<open>The effective message of the specification, section 4.2.\<close>

definition effective_message :: "error \<Rightarrow> string" where
  "effective_message e =
     (case UnwrapGRPCStatus (Some e) of Some s \<Rightarrow> Message s | None \<Rightarrow> Error e)"

text \<open>\<open>n\<close> wrappers without a status around an error.\<close>

fun nested :: "nat \<Rightarrow> error \<Rightarrow> error" where
  "nested 0 e = e"
| "nested (Suc n) e = Errorf_w ''ctx: '' (nested n e)"

section \<open>Auxiliary facts\<close>

subsection \<open>The gRPC library\<close>

lemma status_Error_not_OK:
  "c \<noteq> codes_OK \<Longrightarrow> status_Error c msg = Some (grpc_error (status_New c msg))"
  by (simp add: status_Error_def Status_Err_def status_New_def)

lemma status_Error_OK: "status_Error codes_OK msg = None"
  by (simp add: status_Error_def Status_Err_def status_New_def)

subsection \<open>Chains and unwrapping\<close>

lemma UnwrapGRPCStatus_grpc_error [simp]:
  "UnwrapGRPCStatus (Some (grpc_error s)) = Some s"
  by (simp add: grpc_error_def)

lemma chain_not_Nil [simp]: "chain e \<noteq> []"
  by (cases e) simp

lemma chain_Errorf_w [simp]: "chain (Errorf_w p e) = Errorf_w p e # chain e"
  by (simp add: Errorf_w_def)

lemma GRPCStatus_Errorf_w [simp]: "GRPCStatus (Errorf_w p e) = None"
  by (simp add: Errorf_w_def)

lemma chain_grpc_error [simp]: "chain (grpc_error s) = [grpc_error s]"
  by (simp add: grpc_error_def)

lemma length_chain_nested: "length (chain (nested n e)) = n + length (chain e)"
  by (induction n) simp_all

lemma last_chain_nested: "last (chain (nested n e)) = last (chain e)"
  by (induction n) simp_all

lemma butlast_chain_nested:
  "\<forall>l \<in> set (butlast (chain e)). GRPCStatus l = None \<Longrightarrow>
   \<forall>l \<in> set (butlast (chain (nested n e))). GRPCStatus l = None"
  by (induction n) simp_all

text \<open>The search stops at the first link of the chain that has the method.\<close>

lemma unwrap_find:
  "UnwrapGRPCStatus (Some e) =
     (case find (\<lambda>l. GRPCStatus l \<noteq> None) (chain e) of
        None \<Rightarrow> None
      | Some l \<Rightarrow> (case GRPCStatus l of Some r \<Rightarrow> r | None \<Rightarrow> None))"
proof (induction e rule: chain.induct)
  case (1 m g a u)
  then show ?case by (cases g; cases u) auto
qed

lemma calls_bound: "UnwrapGRPCStatus_calls (Some e) \<le> length (chain e)"
  by (induction e rule: chain.induct) (auto split: option.splits)

subsection \<open>The version-control classifier\<close>

lemma git_Some:
  "gitErrToGRPC (Some e) =
     Inr (Some (if effective_message e = ''repository not found''
                then grpc_error (status_New codes_NotFound ''repository not found'')
                else e))"
  by (simp add: gitErrToGRPC_def effective_message_def ErrRepositoryNotFound_def
      errors_New_def rewrapError_def status_Error_not_OK codes_defs Let_def
      split: option.splits)

lemma effective_message_grpc_error [simp]: "effective_message (grpc_error s) = Message s"
  by (simp add: effective_message_def)

lemma git_idem: "\<exists>r. gitErrToGRPC e = Inr r \<and> gitErrToGRPC r = Inr r"
proof (cases e)
  case None
  then show ?thesis by (simp add: gitErrToGRPC_def)
next
  case (Some x)
  then show ?thesis by (simp add: git_Some status_New_def)
qed

subsection \<open>The control-plane classifier\<close>

lemma first_match_lemma:
  "kubeErrToGRPC apierrors (Some e) =
     (case find (\<lambda>(p, c). apierrors p (Some e)) kube_rules of
        Some (p, c) \<Rightarrow> Inr (Some (grpc_error (status_New c (Error e))))
      | None \<Rightarrow>
          (case UnwrapGRPCStatus (Some e) of
             Some g \<Rightarrow> Inr (status_Error (Code g) (Message g))
           | None \<Rightarrow> Inr (Some e)))"
  by (simp add: kubeErrToGRPC_def kube_rules_def rewrapError_def status_Error_not_OK codes_defs)

lemma kube_None:
  "\<forall>p. \<not> apierrors p None \<Longrightarrow> kubeErrToGRPC apierrors None = Inr None"
  by (simp add: kubeErrToGRPC_def)

text \<open>Every predicate is the predicate of a rule of the list.\<close>

lemma no_rule_iff:
  "find (\<lambda>(p, c). apierrors p err) kube_rules = None \<longleftrightarrow> (\<forall>p. \<not> apierrors p err)"
proof
  assume n: "find (\<lambda>(p, c). apierrors p err) kube_rules = None"
  show "\<forall>p. \<not> apierrors p err"
  proof
    fix p
    from n show "\<not> apierrors p err"
      by (cases p) (simp_all add: kube_rules_def split: if_splits)
  qed
next
  assume "\<forall>p. \<not> apierrors p err"
  then show "find (\<lambda>(p, c). apierrors p err) kube_rules = None"
    by (simp add: kube_rules_def)
qed

lemma kube_default:
  "\<forall>p. \<not> apierrors p err \<Longrightarrow>
   kubeErrToGRPC apierrors err =
     (case UnwrapGRPCStatus err of
        Some g \<Rightarrow> Inr (status_Error (Code g) (Message g))
      | None \<Rightarrow> Inr err)"
  by (simp add: kubeErrToGRPC_def)

text \<open>
  What the classifier returns for an error that is not nil: the error itself, or the
  result of \<open>status.Error\<close>.
\<close>

lemma kube_range:
  "(\<forall>p. \<not> apierrors p (Some e)) \<and> UnwrapGRPCStatus (Some e) = None \<and>
     kubeErrToGRPC apierrors (Some e) = Inr (Some e) \<or>
   (\<exists>c m. kubeErrToGRPC apierrors (Some e) = Inr (status_Error c m))"
proof (cases "\<forall>p. \<not> apierrors p (Some e)")
  case True
  then show ?thesis
    by (cases "UnwrapGRPCStatus (Some e)") (auto simp: kube_default)
next
  case False
  then have "first_match apierrors (Some e) \<noteq> None"
    by (simp add: first_match_def no_rule_iff)
  then obtain p c where f: "first_match apierrors (Some e) = Some (p, c)" by auto
  then have "(p, c) \<in> set kube_rules"
    unfolding first_match_def by (metis find_Some_iff nth_mem)
  then have "c \<noteq> codes_OK"
    by (auto simp: kube_rules_def codes_defs)
  with f have "kubeErrToGRPC apierrors (Some e) = Inr (status_Error c (Error e))"
    using first_match_lemma [of apierrors e]
    by (simp add: first_match_def status_Error_not_OK)
  then show ?thesis by blast
qed

lemma kube_status_Error_fixed:
  assumes "\<forall>p. \<not> apierrors p None"
    and "\<forall>p c m. \<not> apierrors p (Some (grpc_error (status_New c m)))"
  shows "kubeErrToGRPC apierrors (status_Error c m) = Inr (status_Error c m)"
proof (cases "c = codes_OK")
  case True
  with assms(1) show ?thesis by (simp add: status_Error_OK kube_None)
next
  case False
  with assms(2) show ?thesis
    by (simp add: status_Error_not_OK kube_default status_New_def)
qed

lemma kube_idem:
  assumes "\<forall>p. \<not> apierrors p None"
    and "\<forall>p c m. \<not> apierrors p (Some (grpc_error (status_New c m)))"
  shows "\<exists>r. kubeErrToGRPC apierrors e = Inr r \<and> kubeErrToGRPC apierrors r = Inr r"
proof (cases e)
  case None
  with assms(1) show ?thesis by (simp add: kube_None)
next
  case (Some x)
  from kube_range [of apierrors x] show ?thesis
  proof
    assume "(\<forall>p. \<not> apierrors p (Some x)) \<and> UnwrapGRPCStatus (Some x) = None \<and>
        kubeErrToGRPC apierrors (Some x) = Inr (Some x)"
    with Some show ?thesis by simp
  next
    assume "\<exists>c m. kubeErrToGRPC apierrors (Some x) = Inr (status_Error c m)"
    then obtain c m where "kubeErrToGRPC apierrors (Some x) = Inr (status_Error c m)" by blast
    with Some kube_status_Error_fixed [OF assms] show ?thesis by simp
  qed
qed

subsection \<open>The Kubernetes predicates\<close>

text \<open>An error without a Kubernetes status anywhere in its chain satisfies no predicate.\<close>

lemma apimachinery_no_APIStatus:
  "errors_As_APIStatus err = None \<Longrightarrow> \<not> apimachinery p err"
  by (cases p)
     (simp_all add: reason_or_code_def reasonAndCodeForError_def ReasonForError_def)

lemma apimachinery_nil: "\<not> apimachinery p None"
  by (rule apimachinery_no_APIStatus) simp

lemma apimachinery_grpc_error: "\<not> apimachinery p (Some (grpc_error s))"
  by (rule apimachinery_no_APIStatus) (simp add: grpc_error_def)

section \<open>The claims\<close>

subsection \<open>C1: the priority order of the control-plane classifier\<close>

text \<open>
  C1. For every error that is not nil, \<open>kubeErrToGRPC\<close> decides by the first rule of
  the priority list (not-found, already-exists, invalid, method-not-supported,
  service-unavailable, bad-request, unauthorized, forbidden, timeout, server-timeout,
  conflict, too-many-requests, internal-error) whose predicate holds, and returns a fresh
  status error with that rule's code and the error's own text; only when no predicate
  holds does it reach the default branch. In particular, when the predicates of two
  rules hold and no rule before the earlier one matches, the earlier rule's code is
  the result's code, whatever the later predicate says.
\<close>

theorem kubeErrToGRPC_first_match:
  "kubeErrToGRPC apierrors (Some e) =
     (case first_match apierrors (Some e) of
        Some (p, c) \<Rightarrow> Inr (Some (grpc_error \<lparr>Code = c, Message = Error e, Details = []\<rparr>))
      | None \<Rightarrow>
          (case UnwrapGRPCStatus (Some e) of
             Some g \<Rightarrow> Inr (status_Error (Code g) (Message g))
           | None \<Rightarrow> Inr (Some e))) \<and>
   (\<forall>i j. i < j \<and> j < length kube_rules \<and>
      apierrors (fst (kube_rules ! i)) (Some e) \<and> apierrors (fst (kube_rules ! j)) (Some e) \<and>
      (\<forall>k < i. \<not> apierrors (fst (kube_rules ! k)) (Some e)) \<longrightarrow>
      kubeErrToGRPC apierrors (Some e) =
        Inr (Some (grpc_error \<lparr>Code = snd (kube_rules ! i), Message = Error e, Details = []\<rparr>)))"
proof (intro conjI allI impI)
  show eq: "kubeErrToGRPC apierrors (Some e) =
     (case first_match apierrors (Some e) of
        Some (p, c) \<Rightarrow> Inr (Some (grpc_error \<lparr>Code = c, Message = Error e, Details = []\<rparr>))
      | None \<Rightarrow>
          (case UnwrapGRPCStatus (Some e) of
             Some g \<Rightarrow> Inr (status_Error (Code g) (Message g))
           | None \<Rightarrow> Inr (Some e)))"
    using first_match_lemma [of apierrors e] unfolding status_New_def first_match_def .
  fix i j
  assume h: "i < j \<and> j < length kube_rules \<and>
      apierrors (fst (kube_rules ! i)) (Some e) \<and> apierrors (fst (kube_rules ! j)) (Some e) \<and>
      (\<forall>k < i. \<not> apierrors (fst (kube_rules ! k)) (Some e))"
  then have "first_match apierrors (Some e) = Some (kube_rules ! i)"
    unfolding first_match_def find_Some_iff by (intro exI [of _ i]) (auto simp: case_prod_beta)
  with eq show "kubeErrToGRPC apierrors (Some e) =
        Inr (Some (grpc_error \<lparr>Code = snd (kube_rules ! i), Message = Error e, Details = []\<rparr>))"
    by (simp add: case_prod_beta)
qed

text \<open>
  A Kubernetes status with the reason NotFound and the HTTP code 429 satisfies both
  \<open>IsNotFound\<close> (rule 1) and \<open>IsTooManyRequests\<close> (rule 12); the result is NotFound.
\<close>

theorem kubeErrToGRPC_first_match_witness:
  "apimachinery IsNotFound
     (Some (Err ''pods not found'' None (Some \<lparr>Reason = ''NotFound'', HTTPCode = 429\<rparr>) None)) \<and>
   apimachinery IsTooManyRequests
     (Some (Err ''pods not found'' None (Some \<lparr>Reason = ''NotFound'', HTTPCode = 429\<rparr>) None)) \<and>
   kubeErrToGRPC apimachinery
     (Some (Err ''pods not found'' None (Some \<lparr>Reason = ''NotFound'', HTTPCode = 429\<rparr>) None)) =
     Inr (Some (grpc_error \<lparr>Code = codes_NotFound, Message = ''pods not found'', Details = []\<rparr>))"
proof -
  let ?e = "Err ''pods not found'' None (Some \<lparr>Reason = ''NotFound'', HTTPCode = 429\<rparr>) None"
  have a: "apimachinery IsNotFound (Some ?e)"
    by (simp add: reason_or_code_def reasonAndCodeForError_def)
  have b: "apimachinery IsTooManyRequests (Some ?e)"
    by (simp add: reasonAndCodeForError_def)
  have i: "kube_rules ! 0 = (IsNotFound, codes_NotFound)"
    and j: "kube_rules ! 11 = (IsTooManyRequests, codes_ResourceExhausted)"
    and l: "length kube_rules = 13"
    by (simp_all add: kube_rules_def)
  have "kubeErrToGRPC apimachinery (Some ?e) =
      Inr (Some (grpc_error \<lparr>Code = snd (kube_rules ! 0), Message = Error ?e, Details = []\<rparr>))"
    using kubeErrToGRPC_first_match [of apimachinery ?e, THEN conjunct2, rule_format, of 0 11]
      a b i j l by simp
  with a b i show ?thesis by simp
qed

subsection \<open>C2: an embedded status when no rule fires\<close>

text \<open>
  C2, as stated, fails in two places. In the control-plane classifier an embedded
  status with the code OK and the message ``done'' matches no rule, and the default
  branch returns nil, because \<open>status.Error\<close> returns nil for OK: no error carries the
  message. In the version-control classifier an error that wraps a status error
  (Internal, ``boom'') is returned as it is: the result is the wrapper, which has no
  \<open>GRPCStatus()\<close> of its own and whose text is not ``boom''.
\<close>

theorem classify_embedded_status_counterexample:
  "UnwrapGRPCStatus
     (Some (Err ''done'' (Some (Some \<lparr>Code = codes_OK, Message = ''done'', Details = []\<rparr>)) None None)) =
     Some \<lparr>Code = codes_OK, Message = ''done'', Details = []\<rparr> \<and>
   first_match apimachinery
     (Some (Err ''done'' (Some (Some \<lparr>Code = codes_OK, Message = ''done'', Details = []\<rparr>)) None None)) =
     None \<and>
   kubeErrToGRPC apimachinery
     (Some (Err ''done'' (Some (Some \<lparr>Code = codes_OK, Message = ''done'', Details = []\<rparr>)) None None)) =
     Inr None \<and>
   UnwrapGRPCStatus
     (Some (Errorf_w ''sync: '' (grpc_error \<lparr>Code = codes_Internal, Message = ''boom'', Details = []\<rparr>))) =
     Some \<lparr>Code = codes_Internal, Message = ''boom'', Details = []\<rparr> \<and>
   gitErrToGRPC
     (Some (Errorf_w ''sync: '' (grpc_error \<lparr>Code = codes_Internal, Message = ''boom'', Details = []\<rparr>))) =
     Inr (Some (Errorf_w ''sync: '' (grpc_error \<lparr>Code = codes_Internal, Message = ''boom'', Details = []\<rparr>))) \<and>
   GRPCStatus (Errorf_w ''sync: '' (grpc_error \<lparr>Code = codes_Internal, Message = ''boom'', Details = []\<rparr>)) =
     None \<and>
   Error (Errorf_w ''sync: '' (grpc_error \<lparr>Code = codes_Internal, Message = ''boom'', Details = []\<rparr>)) =
     ''sync: rpc error: code = Internal desc = boom''"
proof -
  let ?ok = "Err ''done'' (Some (Some \<lparr>Code = codes_OK, Message = ''done'', Details = []\<rparr>)) None None"
  have none: "\<forall>p. \<not> apimachinery p (Some ?ok)"
    by (simp add: apimachinery_no_APIStatus)
  have "first_match apimachinery (Some ?ok) = None"
    unfolding first_match_def no_rule_iff by (rule none)
  moreover have "kubeErrToGRPC apimachinery (Some ?ok) = Inr None"
    using none by (simp add: kube_default status_Error_OK)
  moreover have "gitErrToGRPC
     (Some (Errorf_w ''sync: '' (grpc_error \<lparr>Code = codes_Internal, Message = ''boom'', Details = []\<rparr>))) =
     Inr (Some (Errorf_w ''sync: '' (grpc_error \<lparr>Code = codes_Internal, Message = ''boom'', Details = []\<rparr>)))"
    by (simp add: git_Some effective_message_def Errorf_w_def)
  ultimately show ?thesis
    by (simp add: Errorf_w_def grpc_error_def Status_String_def code_String_def codes_defs)
qed

text \<open>
  C2, amended. For every error \<open>e\<close> in which \<open>UnwrapGRPCStatus\<close> finds a status
  \<open>(c, m)\<close>: when no Kubernetes predicate holds of \<open>e\<close> and \<open>c\<close> is not OK,
  \<open>kubeErrToGRPC\<close> returns a fresh status error with exactly the code \<open>c\<close> and the
  message \<open>m\<close>, without wrapping; when \<open>m\<close> is not the repository-not-found text,
  \<open>gitErrToGRPC\<close> returns \<open>e\<close> itself, in which the status \<open>(c, m)\<close> is still found by
  \<open>UnwrapGRPCStatus\<close>.
\<close>

theorem classify_embedded_status:
  assumes "UnwrapGRPCStatus (Some e) = Some s"
  shows "((\<forall>p. \<not> apierrors p (Some e)) \<and> Code s \<noteq> codes_OK \<longrightarrow>
            kubeErrToGRPC apierrors (Some e) =
              Inr (Some (grpc_error \<lparr>Code = Code s, Message = Message s, Details = []\<rparr>))) \<and>
         (Message s \<noteq> ''repository not found'' \<longrightarrow>
            (\<exists>r. gitErrToGRPC (Some e) = Inr (Some r) \<and> r = e \<and>
                 UnwrapGRPCStatus (Some r) = Some s))"
  using assms
  by (simp add: kube_default status_Error_not_OK git_Some effective_message_def status_New_def)

theorem classify_embedded_status_witness:
  "kubeErrToGRPC apimachinery
     (Some (Errorf_w ''sync: '' (grpc_error \<lparr>Code = codes_Internal, Message = ''boom'', Details = []\<rparr>))) =
     Inr (Some (grpc_error \<lparr>Code = codes_Internal, Message = ''boom'', Details = []\<rparr>)) \<and>
   gitErrToGRPC
     (Some (Errorf_w ''sync: '' (grpc_error \<lparr>Code = codes_Internal, Message = ''boom'', Details = []\<rparr>))) =
     Inr (Some (Errorf_w ''sync: '' (grpc_error \<lparr>Code = codes_Internal, Message = ''boom'', Details = []\<rparr>)))"
proof -
  let ?s = "\<lparr>Code = codes_Internal, Message = ''boom'', Details = []\<rparr>"
  let ?e = "Errorf_w ''sync: '' (grpc_error ?s)"
  have u: "UnwrapGRPCStatus (Some ?e) = Some ?s"
    by (simp add: Errorf_w_def)
  have none: "\<forall>p. \<not> apimachinery p (Some ?e)"
    by (simp add: apimachinery_no_APIStatus Errorf_w_def grpc_error_def)
  have ok: "Code ?s \<noteq> codes_OK" "Message ?s \<noteq> ''repository not found''"
    by (simp_all add: codes_defs)
  show ?thesis
    using classify_embedded_status [OF u, of apimachinery] none ok by simp
qed

subsection \<open>C3: the outermost status wins\<close>

text \<open>
  C3. \<open>UnwrapGRPCStatus\<close> returns what the \<open>GRPCStatus()\<close> method of the outermost link
  that has the method returns: the links are tried from the outside in and the method is
  looked for before the link is unwrapped, so an outer status hides every inner one.
  When the chain ends without such a link the result is nil, as it is for the nil error.
\<close>

theorem UnwrapGRPCStatus_outermost_status:
  "UnwrapGRPCStatus None = None \<and>
   UnwrapGRPCStatus (Some e) =
     (case find (\<lambda>l. GRPCStatus l \<noteq> None) (chain e) of
        None \<Rightarrow> None
      | Some l \<Rightarrow> (case GRPCStatus l of Some r \<Rightarrow> r | None \<Rightarrow> None))"
  using unwrap_find [of e] by simp

theorem UnwrapGRPCStatus_outermost_status_witness:
  "UnwrapGRPCStatus
     (Some (Errorf_w ''ctx: ''
        (Err ''outer'' (Some (Some (status_New codes_Aborted ''a''))) None
           (Some (grpc_error (status_New codes_Internal ''b'')))))) =
   Some (status_New codes_Aborted ''a'')"
  using UnwrapGRPCStatus_outermost_status
    [of "Errorf_w ''ctx: ''
        (Err ''outer'' (Some (Some (status_New codes_Aborted ''a''))) None
           (Some (grpc_error (status_New codes_Internal ''b''))))"]
  by (simp add: Errorf_w_def grpc_error_def)

subsection \<open>C4: the version-control classifier\<close>

text \<open>
  C4. For every error \<open>e\<close> that is not nil, the effective message of \<open>gitErrToGRPC\<close> is
  the message of the status \<open>UnwrapGRPCStatus\<close> finds, and the text of \<open>e\<close> when it finds
  none. When the effective message is the repository-not-found text the result is a
  fresh status error with the code NotFound and that message; in every other case the
  result is \<open>e\<close> itself.
\<close>

theorem gitErrToGRPC_effective_message:
  "effective_message e =
     (case UnwrapGRPCStatus (Some e) of Some s \<Rightarrow> Message s | None \<Rightarrow> Error e) \<and>
   gitErrToGRPC (Some e) =
     Inr (Some (if effective_message e = ''repository not found''
                then grpc_error \<lparr>Code = codes_NotFound, Message = ''repository not found'',
                                 Details = []\<rparr>
                else e))"
  using git_Some [of e] by (simp add: effective_message_def status_New_def)

text \<open>
  The bare go-git error is rewritten; the same error under two \<open>fmt.Errorf\<close> wrappers has
  a longer text and no status, and is returned as it is.
\<close>

theorem gitErrToGRPC_effective_message_witness:
  "gitErrToGRPC (Some (Errorf_w ''fetch: '' (Errorf_w ''ls-remote: '' (errors_New ''repository not found'')))) =
     Inr (Some (Errorf_w ''fetch: '' (Errorf_w ''ls-remote: '' (errors_New ''repository not found'')))) \<and>
   gitErrToGRPC (Some (errors_New ''repository not found'')) =
     Inr (Some (grpc_error \<lparr>Code = codes_NotFound, Message = ''repository not found'', Details = []\<rparr>))"
  using gitErrToGRPC_effective_message [of "Errorf_w ''fetch: '' (Errorf_w ''ls-remote: '' (errors_New ''repository not found''))"]
    gitErrToGRPC_effective_message [of "errors_New ''repository not found''"]
  by (simp add: Errorf_w_def errors_New_def)

subsection \<open>C5: nil in, nil out\<close>

text \<open>
  C5. Both classifiers return nil for nil. \<open>gitErrToGRPC\<close> checks for nil itself.
  \<open>kubeErrToGRPC\<close> has no such check: it reaches the default branch because no
  predicate of the Kubernetes library holds of nil, which is the hypothesis on the
  predicates here, and \<open>UnwrapGRPCStatus\<close> finds nothing in nil.
\<close>

theorem classify_nil:
  assumes "\<forall>p. \<not> apierrors p None"
  shows "gitErrToGRPC None = Inr None \<and> kubeErrToGRPC apierrors None = Inr None"
  using assms by (simp add: kube_None gitErrToGRPC_def)

theorem classify_nil_witness:
  "gitErrToGRPC None = Inr None \<and> kubeErrToGRPC apimachinery None = Inr None"
  using classify_nil [of apimachinery] by (simp add: apimachinery_nil)

subsection \<open>C6: idempotence\<close>

text \<open>
  C6. Each classifier returns, for every error (nil or not), a value that it maps to
  itself: classifying a second time changes nothing, so the code and the message stay
  the same. For \<open>kubeErrToGRPC\<close> this uses two facts of the Kubernetes predicates: none
  holds of nil, and none holds of a status error built by \<open>status.Error\<close>.
\<close>

theorem classify_idempotent:
  assumes "\<forall>p. \<not> apierrors p None"
    and "\<forall>p c m. \<not> apierrors p (Some (grpc_error (status_New c m)))"
  shows "(\<exists>r. gitErrToGRPC e = Inr r \<and> gitErrToGRPC r = Inr r) \<and>
         (\<exists>r. kubeErrToGRPC apierrors e = Inr r \<and> kubeErrToGRPC apierrors r = Inr r)"
  using git_idem [of e] kube_idem [OF assms, of e] by simp

theorem classify_idempotent_witness:
  "gitErrToGRPC (Some (errors_New ''repository not found'')) =
     Inr (Some (grpc_error \<lparr>Code = codes_NotFound, Message = ''repository not found'', Details = []\<rparr>)) \<and>
   gitErrToGRPC (Some (grpc_error \<lparr>Code = codes_NotFound, Message = ''repository not found'', Details = []\<rparr>)) =
     Inr (Some (grpc_error \<lparr>Code = codes_NotFound, Message = ''repository not found'', Details = []\<rparr>)) \<and>
   kubeErrToGRPC apimachinery
     (Some (Err ''apps exists'' None (Some \<lparr>Reason = ''AlreadyExists'', HTTPCode = 409\<rparr>) None)) =
     Inr (Some (grpc_error \<lparr>Code = codes_AlreadyExists, Message = ''apps exists'', Details = []\<rparr>)) \<and>
   kubeErrToGRPC apimachinery
     (Some (grpc_error \<lparr>Code = codes_AlreadyExists, Message = ''apps exists'', Details = []\<rparr>)) =
     Inr (Some (grpc_error \<lparr>Code = codes_AlreadyExists, Message = ''apps exists'', Details = []\<rparr>))"
proof -
  let ?g = "errors_New ''repository not found''"
  let ?k = "Err ''apps exists'' None (Some \<lparr>Reason = ''AlreadyExists'', HTTPCode = 409\<rparr>) None"
  have nil: "\<forall>p. \<not> apimachinery p None"
    by (simp add: apimachinery_nil)
  have fresh: "\<forall>p c m. \<not> apimachinery p (Some (grpc_error (status_New c m)))"
    by (simp add: apimachinery_grpc_error)
  have g: "gitErrToGRPC (Some ?g) =
      Inr (Some (grpc_error \<lparr>Code = codes_NotFound, Message = ''repository not found'', Details = []\<rparr>))"
    by (simp add: git_Some effective_message_def errors_New_def status_New_def)
  have k: "kubeErrToGRPC apimachinery (Some ?k) =
      Inr (Some (grpc_error \<lparr>Code = codes_AlreadyExists, Message = ''apps exists'', Details = []\<rparr>))"
    by (simp add: kubeErrToGRPC_def reason_or_code_def reasonAndCodeForError_def
        ReasonForError_def knownReasons_def rewrapError_def status_Error_not_OK
        status_New_def codes_defs)
  show ?thesis
    using classify_idempotent [OF nil fresh, of "Some ?g"]
      classify_idempotent [OF nil fresh, of "Some ?k"] g k
    by simp
qed

subsection \<open>C7: unwrapping depth\<close>

text \<open>
  C7. For every chain of \<open>N + 1\<close> links (nesting depth \<open>N\<close>, any \<open>N\<close>) in which only
  the innermost link has a \<open>GRPCStatus()\<close> method, \<open>UnwrapGRPCStatus\<close> returns the
  status of that link, and it is entered \<open>N + 1\<close> times: once per link.
\<close>

theorem UnwrapGRPCStatus_innermost_depth:
  assumes "length (chain e) = Suc N"
    and "\<forall>l \<in> set (butlast (chain e)). GRPCStatus l = None"
    and "GRPCStatus (last (chain e)) = Some (Some s)"
  shows "UnwrapGRPCStatus (Some e) = Some s \<and> UnwrapGRPCStatus_calls (Some e) = Suc N"
  using assms
proof (induction e arbitrary: N rule: chain.induct)
  case (1 m g a u)
  show ?case
  proof (cases u)
    case None
    with 1 show ?thesis by simp
  next
    case (Some c)
    have ne: "chain c \<noteq> []" by (cases c) simp
    from 1(2) Some obtain M where N: "N = Suc M" and len: "length (chain c) = Suc M"
      by (cases N) (use ne in auto)
    from 1(3) Some ne have g: "g = None" and inner: "\<forall>l \<in> set (butlast (chain c)). GRPCStatus l = None"
      by auto
    from 1(4) Some ne have lst: "GRPCStatus (last (chain c)) = Some (Some s)" by simp
    from 1(1) [OF Some len inner lst] g Some N show ?thesis by simp
  qed
qed

text \<open>Fifty wrappers around a status error.\<close>

theorem UnwrapGRPCStatus_innermost_depth_witness:
  "UnwrapGRPCStatus (Some (nested 50 (grpc_error (status_New codes_NotFound ''gone'')))) =
     Some (status_New codes_NotFound ''gone'') \<and>
   UnwrapGRPCStatus_calls (Some (nested 50 (grpc_error (status_New codes_NotFound ''gone'')))) = 51"
proof -
  let ?e = "nested 50 (grpc_error (status_New codes_NotFound ''gone''))"
  have len: "length (chain ?e) = Suc 50"
    by (simp add: length_chain_nested)
  have outer: "\<forall>l \<in> set (butlast (chain ?e)). GRPCStatus l = None"
    by (rule butlast_chain_nested) simp
  have inner: "GRPCStatus (last (chain ?e)) = Some (Some (status_New codes_NotFound ''gone''))"
    by (simp add: last_chain_nested grpc_error_def)
  show ?thesis
    using UnwrapGRPCStatus_innermost_depth [OF len outer inner] by simp
qed

subsection \<open>C8: the interceptors\<close>

text \<open>
  C8. Each of the four interceptors runs the handler and passes the error the handler
  returned through its classifier, once. The unary interceptors return the handler's
  response as it is, next to the classified error, whether that error is nil or not
  (the version-control one never panics). The stream interceptors leave the stream as
  the handler left it and classify only the error the handler returned at the end.
\<close>

theorem interceptors_classify_terminal_error:
  "(\<exists>err'. gitErrToGRPC (snd (uh ctx req)) = Inr err' \<and>
      ErrorCodeGitUnaryServerInterceptor ctx req info uh = Inr (fst (uh ctx req), err')) \<and>
   ErrorCodeGitStreamServerInterceptor srv ss info sh =
     (fst (sh srv ss), gitErrToGRPC (snd (sh srv ss))) \<and>
   ErrorCodeK8sUnaryServerInterceptor apierrors ctx req info uh =
     (case kubeErrToGRPC apierrors (snd (uh ctx req)) of
        Inl p \<Rightarrow> Inl p
      | Inr err' \<Rightarrow> Inr (fst (uh ctx req), err')) \<and>
   ErrorCodeK8sStreamServerInterceptor apierrors srv ss info sh =
     (fst (sh srv ss), kubeErrToGRPC apierrors (snd (sh srv ss)))"
proof -
  obtain r where "gitErrToGRPC (snd (uh ctx req)) = Inr r"
    using git_idem [of "snd (uh ctx req)"] by blast
  then show ?thesis
    by (simp add: ErrorCodeGitUnaryServerInterceptor_def ErrorCodeGitStreamServerInterceptor_def
        ErrorCodeK8sUnaryServerInterceptor_def ErrorCodeK8sStreamServerInterceptor_def
        case_prod_beta)
qed

text \<open>
  A stream handler that sends two messages and then fails with a Kubernetes
  ``forbidden'' error: the messages stay, the error becomes PermissionDenied. A unary
  handler that succeeds: the response and the nil error come back.
\<close>

theorem interceptors_classify_terminal_error_witness:
  "ErrorCodeK8sStreamServerInterceptor apimachinery () [''m0''] ()
     (\<lambda>srv ss. (ss @ [''m1'', ''m2''],
        Some (Err ''forbidden'' None (Some \<lparr>Reason = ''Forbidden'', HTTPCode = 403\<rparr>) None))) =
     ([''m0'', ''m1'', ''m2''],
      Inr (Some (grpc_error \<lparr>Code = codes_PermissionDenied, Message = ''forbidden'', Details = []\<rparr>))) \<and>
   ErrorCodeGitUnaryServerInterceptor () ''req'' () (\<lambda>ctx req. (''resp to '' @ req, None)) =
     Inr (''resp to req'', None)"
proof -
  let ?sh = "\<lambda>srv ss. (ss @ [''m1'', ''m2''],
        Some (Err ''forbidden'' None (Some \<lparr>Reason = ''Forbidden'', HTTPCode = 403\<rparr>) None))"
  let ?uh = "\<lambda>ctx req. (''resp to '' @ req, None :: error option)"
  have k: "kubeErrToGRPC apimachinery
      (Some (Err ''forbidden'' None (Some \<lparr>Reason = ''Forbidden'', HTTPCode = 403\<rparr>) None)) =
      Inr (Some (grpc_error \<lparr>Code = codes_PermissionDenied, Message = ''forbidden'', Details = []\<rparr>))"
    by (simp add: kubeErrToGRPC_def reason_or_code_def reasonAndCodeForError_def
        ReasonForError_def knownReasons_def rewrapError_def status_Error_not_OK
        status_New_def codes_defs)
  have g: "gitErrToGRPC None = Inr None"
    by (simp add: gitErrToGRPC_def)
  show ?thesis
    using interceptors_classify_terminal_error
      [where uh = ?uh and ctx = "()" and req = "''req''" and info = "()" and sh = ?sh
         and srv = "()" and ss = "[''m0'']" and apierrors = apimachinery] k g
    by simp
qed

subsection \<open>C9: unrecognised errors pass through\<close>

text \<open>
  C9. For every error \<open>e\<close> that is not nil and in which \<open>UnwrapGRPCStatus\<close> finds no
  status: \<open>gitErrToGRPC\<close> returns \<open>e\<close> itself when the text of \<open>e\<close> is not the
  repository-not-found text, and \<open>kubeErrToGRPC\<close> returns \<open>e\<close> itself when no Kubernetes
  predicate holds of \<open>e\<close>.
\<close>

theorem classify_unrecognized_unchanged:
  assumes "UnwrapGRPCStatus (Some e) = None"
  shows "(Error e \<noteq> ''repository not found'' \<longrightarrow> gitErrToGRPC (Some e) = Inr (Some e)) \<and>
         ((\<forall>p. \<not> apierrors p (Some e)) \<longrightarrow> kubeErrToGRPC apierrors (Some e) = Inr (Some e))"
  using assms by (simp add: kube_default git_Some effective_message_def)

theorem classify_unrecognized_unchanged_witness:
  "gitErrToGRPC (Some (Errorf_w ''dial: '' (errors_New ''connection refused''))) =
     Inr (Some (Errorf_w ''dial: '' (errors_New ''connection refused''))) \<and>
   kubeErrToGRPC apimachinery (Some (Errorf_w ''dial: '' (errors_New ''connection refused''))) =
     Inr (Some (Errorf_w ''dial: '' (errors_New ''connection refused'')))"
proof -
  let ?e = "Errorf_w ''dial: '' (errors_New ''connection refused'')"
  have u: "UnwrapGRPCStatus (Some ?e) = None"
    by (simp add: Errorf_w_def errors_New_def)
  have none: "\<forall>p. \<not> apimachinery p (Some ?e)"
    by (simp add: apimachinery_no_APIStatus Errorf_w_def errors_New_def)
  have m: "Error ?e \<noteq> ''repository not found''"
    by (simp add: Errorf_w_def errors_New_def)
  show ?thesis
    using classify_unrecognized_unchanged [OF u, of apimachinery] none m by simp
qed

subsection \<open>C10: repository-not-found overrides the embedded code\<close>

text \<open>
  C10. When \<open>UnwrapGRPCStatus\<close> finds in \<open>e\<close> a status whose message is the
  repository-not-found text, \<open>gitErrToGRPC\<close> returns a fresh status error with the code
  NotFound, whatever the code of the embedded status, and with the embedded status's
  message, not the text of \<open>e\<close>.
\<close>

theorem gitErrToGRPC_not_found_overrides_code:
  assumes "UnwrapGRPCStatus (Some e) = Some s"
    and "Message s = ''repository not found''"
  shows "gitErrToGRPC (Some e) =
           Inr (Some (grpc_error \<lparr>Code = codes_NotFound, Message = Message s, Details = []\<rparr>))"
  using assms by (simp add: git_Some effective_message_def status_New_def)

theorem gitErrToGRPC_not_found_overrides_code_witness:
  "Error (Errorf_w ''ls-remote: ''
       (grpc_error \<lparr>Code = codes_Internal, Message = ''repository not found'', Details = []\<rparr>)) =
     ''ls-remote: rpc error: code = Internal desc = repository not found'' \<and>
   gitErrToGRPC (Some (Errorf_w ''ls-remote: ''
       (grpc_error \<lparr>Code = codes_Internal, Message = ''repository not found'', Details = []\<rparr>))) =
     Inr (Some (grpc_error \<lparr>Code = codes_NotFound, Message = ''repository not found'', Details = []\<rparr>))"
proof -
  let ?s = "\<lparr>Code = codes_Internal, Message = ''repository not found'', Details = []\<rparr>"
  let ?e = "Errorf_w ''ls-remote: '' (grpc_error ?s)"
  have u: "UnwrapGRPCStatus (Some ?e) = Some ?s"
    by (simp add: Errorf_w_def)
  have m: "Message ?s = ''repository not found''" by simp
  have t: "Error ?e = ''ls-remote: rpc error: code = Internal desc = repository not found''"
    by (simp add: Errorf_w_def grpc_error_def Status_String_def code_String_def codes_defs)
  show ?thesis
    using gitErrToGRPC_not_found_overrides_code [OF u m] t by simp
qed

end
